theory Spec2Isabelle
  imports Main "HOL-Library.Sublist" "HOL-Library.AList"
begin

section \<open>Strings and numbers as the JavaScript source uses them\<close>

text \<open>
  The bot classifies failures by looking for substrings in the message of the thrown
  \<open>Error\<close> (\<open>error.message.includes('404')\<close>), and it builds those messages
  with template literals that print numbers in decimal.  Both are modelled on \<open>string\<close>.
\<close>

definition str_includes :: "string \<Rightarrow> string \<Rightarrow> bool" where
  \<comment> \<open>\<open>s.includes(t)\<close>\<close>
  "str_includes s t = sublist t s"

definition digit_char :: "nat \<Rightarrow> char" where
  "digit_char d = char_of (48 + d)"

function show_nat :: "nat \<Rightarrow> string" where
  "show_nat n = (if n < 10 then [digit_char n] else show_nat (n div 10) @ [digit_char (n mod 10)])"
  by pat_completeness auto
termination
  by (relation "measure id") auto

declare show_nat.simps [simp del]

definition show_int :: "int \<Rightarrow> string" where
  \<comment> \<open>\<open>`${n}`\<close> for an integral JavaScript number\<close>
  "show_int i = (if i < 0 then CHR ''-'' # show_nat (nat (- i)) else show_nat (nat i))"

definition is_digit :: "char \<Rightarrow> bool" where
  "is_digit c = ((48::nat) \<le> of_char c \<and> of_char c \<le> (57::nat))"

definition digit_val :: "char \<Rightarrow> nat" where
  "digit_val c = of_char c - 48"

definition parse_digits :: "string \<Rightarrow> nat" where
  \<comment> \<open>\<open>parseInt\<close> of a string of decimal digits\<close>
  "parse_digits ds = foldl (\<lambda>acc c. 10 * acc + digit_val c) 0 ds"

definition first_digits :: "string \<Rightarrow> string option" where
  \<comment> \<open>\<open>s.match(/\d+/)\<close>: the first maximal run of digits, \<open>None\<close> for \<open>null\<close>\<close>
  "first_digits s =
     (case dropWhile (\<lambda>c. \<not> is_digit c) s of
        [] \<Rightarrow> None
      | c # cs \<Rightarrow> Some (takeWhile is_digit (c # cs)))"


section \<open>Transport and the retrying request executor\<close>

text \<open>
  One HTTP GET ends in one of three ways: a response with a status code, a socket
  error (\<open>request.on('error', ...)\<close>), or the 12 s timeout.  Of a response the code reads the
  status, \<open>parseInt(res.headers['retry-after'])\<close> (\<open>None\<close> stands for \<open>NaN\<close>: header absent
  or not a number) and \<open>JSON.parse\<close> of the body (\<open>None\<close> when it throws).
\<close>

datatype 'j response =
    Status nat "int option" "'j option"
  | RequestError string
  | TimedOut

definition retryAfter_or_15 :: "int option \<Rightarrow> int" where
  \<comment> \<open>\<open>parseInt(res.headers['retry-after']) || 15\<close>: \<open>NaN\<close> and \<open>0\<close> are falsy\<close>
  "retryAfter_or_15 h = (case h of None \<Rightarrow> 15 | Some n \<Rightarrow> if n = 0 then 15 else n)"

definition attemptRequest :: "'j response \<Rightarrow> string + 'j" where
  \<comment> \<open>the inner promise of \<open>makeAPIRequest\<close>; \<open>Inl\<close> carries the message of the rejection\<close>
  "attemptRequest r =
     (case r of
        Status code hdr body \<Rightarrow>
          if code = 429 then
            Inl (''Rate limited. Retry after '' @ show_int (retryAfter_or_15 hdr) @ '' seconds'')
          else if code = 404 \<or> code = 403 then
            Inl (''HTTP '' @ show_nat code @ '': User not accessible'')
          else if code \<noteq> 200 then
            Inl (''HTTP Error: '' @ show_nat code)
          else (case body of Some j \<Rightarrow> Inr j | None \<Rightarrow> Inl ''Invalid JSON response'')
      | RequestError msg \<Rightarrow> Inl msg
      | TimedOut \<Rightarrow> Inl ''Request timeout'')"

definition waitTime :: "string \<Rightarrow> nat \<Rightarrow> int option" where
  \<comment> \<open>milliseconds to wait after a failed attempt; \<open>None\<close> when \<open>match\<close> returns \<open>null\<close>
      and indexing it throws inside the promise executor\<close>
  "waitTime msg attempt =
     (if str_includes msg ''Rate limited'' then
        (if str_includes msg ''Retry after'' then
           (case first_digits msg of
              None \<Rightarrow> None
            | Some ds \<Rightarrow> Some (int (parse_digits ds) * 1000))
         else Some (min (15000 + int attempt * 5000) 45000))
      else if str_includes msg ''404'' \<or> str_includes msg ''403'' then
        Some (2000 + int attempt * 1000)
      else Some (3000 + int attempt * 2000))"

text \<open>
  How the promise returned by \<open>makeAPIRequest\<close> ends.  \<open>Rejected None\<close> is
  \<open>reject(undefined)\<close>; \<open>Unsettled\<close> is the promise that never settles because the async
  executor itself threw.
\<close>

datatype 'j settled = Resolved 'j | Rejected "string option" | Unsettled

function requestLoop ::
  "(nat \<Rightarrow> 'j response) \<Rightarrow> nat \<Rightarrow> nat \<Rightarrow> string option \<Rightarrow> 'j settled \<times> int list" where
  "requestLoop transport maxRetries attempt lastError =
     (if attempt \<le> maxRetries then
        (case attemptRequest (transport attempt) of
           Inr result \<Rightarrow> (Resolved result, [])
         | Inl msg \<Rightarrow>
             (if attempt < maxRetries then
                (case waitTime msg attempt of
                   None \<Rightarrow> (Unsettled, [])
                 | Some w \<Rightarrow>
                     (case requestLoop transport maxRetries (attempt + 1) (Some msg) of
                        (out, ws) \<Rightarrow> (out, w # ws)))
              else requestLoop transport maxRetries (attempt + 1) (Some msg)))
      else (Rejected lastError, []))"
  by pat_completeness auto
termination
  by (relation "measure (\<lambda>(t, m, a, e). Suc m - a)") auto

declare requestLoop.simps [simp del]

definition makeAPIRequest :: "(nat \<Rightarrow> 'j response) \<Rightarrow> nat \<Rightarrow> 'j settled \<times> int list" where
  \<comment> \<open>\<open>transport k\<close> is what the \<open>k\<close>-th GET of this call meets; the result pairs the
      way the promise ends with the delays slept between attempts\<close>
  "makeAPIRequest transport maxRetries = requestLoop transport maxRetries 0 None"



section \<open>The entity activity prober\<close>

text \<open>
  What \<open>getUserActivity\<close> reads of the user endpoint's JSON.  \<open>isBanned\<close> and \<open>r_banned\<close>
  say whether the field is \<open>=== true\<close>.  The suspension end is an ISO timestamp in the
  payload; it is modelled by the epoch milliseconds \<open>new Date(...)\<close> makes of it, \<open>None\<close>
  for an absent or \<open>null\<close> field.
\<close>

record user_response =
  isBanned :: bool
  r_banned :: bool
  r_suspendedUntil :: "int option"
  r_suspended_until :: "int option"
  r_countryCode :: "string option"
  r_country_code :: "string option"

record probe_result =
  accessible :: bool
  pr_countryCode :: "string option"
  banned :: bool
  suspended :: bool
  pr_suspendedUntil :: "int option"
  deleted :: bool

definition js_or :: "'a option \<Rightarrow> 'a option \<Rightarrow> 'a option" where
  \<comment> \<open>\<open>a || b\<close> on values that are truthy whenever present\<close>
  "js_or a b = (case a of Some x \<Rightarrow> Some x | None \<Rightarrow> b)"

definition not_accessible :: probe_result where
  \<comment> \<open>\<open>{ accessible: false, banned: false, deleted: true, reason: ... }\<close>; absent fields
      read as falsy\<close>
  "not_accessible =
     \<lparr>accessible = False, pr_countryCode = None, banned = False, suspended = False,
      pr_suspendedUntil = None, deleted = True\<rparr>"

definition getUserActivity :: "string + user_response \<Rightarrow> int \<Rightarrow> string + probe_result" where
  \<comment> \<open>the argument is how \<open>await makeAPIRequest(url)\<close> ended (\<open>Inl\<close>: the message of the
      thrown error), \<open>now\<close> is \<open>new Date()\<close>; \<open>Inl\<close> in the result is the rethrown error\<close>
  "getUserActivity awaited now =
     (case awaited of
        Inr response \<Rightarrow>
          (let isBanned' = (isBanned response \<or> r_banned response);
               suspendedUntil' = js_or (r_suspendedUntil response) (r_suspended_until response);
               isSuspended = (case suspendedUntil' of None \<Rightarrow> False | Some t \<Rightarrow> t > now)
           in Inr \<lparr>accessible = True,
                   pr_countryCode = js_or (r_countryCode response) (r_country_code response),
                   banned = isBanned', suspended = isSuspended,
                   pr_suspendedUntil = suspendedUntil', deleted = False\<rparr>)
      | Inl msg \<Rightarrow>
          if str_includes msg ''404'' then Inr not_accessible
          else if str_includes msg ''403'' then Inr not_accessible
          else Inl msg)"







section \<open>The leaderboard snapshot fetcher\<close>

text \<open>
  The page requests of one call are answered in order by a script: each entry is how
  one \<open>await makeAPIRequest(url)\<close> ended.  The loop can go on for as long as the service
  keeps answering 429, so the function consumes one entry per request and yields \<open>None\<close>
  when the script ends before the loop does.  The trace records the requests (by offset)
  and the delays, in order.
\<close>

datatype action = Request nat | Delay nat

fun fetchLoop ::
  "nat \<Rightarrow> 'p list \<Rightarrow> (string + 'p list) list \<Rightarrow> action list \<times> 'p list option" where
  "fetchLoop offset allPlayers [] =
     (if offset < 2000 then ([], None) else ([], Some allPlayers))"
| "fetchLoop offset allPlayers (r # script) =
     (if offset < 2000 then
        (case r of
           Inr players \<Rightarrow>
             if length players = 0 then ([Request offset], Some allPlayers)
             else if offset + 100 < 2000 then
               (case fetchLoop (offset + 100) (allPlayers @ players) script of
                  (tr, res) \<Rightarrow> (Request offset # Delay 75 # tr, res))
             else
               (case fetchLoop (offset + 100) (allPlayers @ players) script of
                  (tr, res) \<Rightarrow> (Request offset # tr, res))
         | Inl msg \<Rightarrow>
             if str_includes msg ''Rate limited'' then
               \<comment> \<open>\<open>offset -= 100; continue\<close>, then the loop header's \<open>offset += 100\<close>\<close>
               (case fetchLoop offset allPlayers script of
                  (tr, res) \<Rightarrow> (Request offset # Delay 15000 # tr, res))
             else ([Request offset], Some allPlayers))
      else ([], Some allPlayers))"


fun fetchLoop_main ::
  "nat \<Rightarrow> 'p list \<Rightarrow> (string + 'p list) list \<Rightarrow> action list \<times> 'p list option" where
  "fetchLoop_main offset allPlayers [] =
     (if offset < 2000 then ([], None) else ([], Some allPlayers))"
| "fetchLoop_main offset allPlayers (r # script) =
     (if offset < 2000 then
        (case r of
           Inr players \<Rightarrow>
             if length players = 0 then ([Request offset], Some allPlayers)
             else
               (case fetchLoop_main (offset + 100) (allPlayers @ players) script of
                  (tr, res) \<Rightarrow> (Request offset # Delay 50 # tr, res))
         | Inl msg \<Rightarrow> ([Request offset], Some allPlayers))
      else ([], Some allPlayers))"

definition fetchCurrentLeaderboard_main ::
  "(string + 'p list) list \<Rightarrow> action list \<times> 'p list option" where
  \<comment> \<open>the earlier program (main.js): no retry of a page\<close>
  "fetchCurrentLeaderboard_main script = fetchLoop_main 0 [] script"

fun requests :: "action list \<Rightarrow> nat list" where
  "requests [] = []"
| "requests (Request off # tr) = off # requests tr"
| "requests (Delay ms # tr) = requests tr"

definition rate_limited :: "string + 'p list \<Rightarrow> bool" where
  "rate_limited r = (case r of Inl msg \<Rightarrow> str_includes msg ''Rate limited'' | Inr ps \<Rightarrow> False)"

definition page_of :: "string + 'p list \<Rightarrow> 'p list" where
  "page_of r = (case r of Inl msg \<Rightarrow> [] | Inr ps \<Rightarrow> ps)"

definition ends_pagination :: "string + 'p list \<Rightarrow> bool" where
  \<comment> \<open>an empty page, or a failure that is not a rate limit\<close>
  "ends_pagination r =
     (case r of Inl msg \<Rightarrow> \<not> str_includes msg ''Rate limited'' | Inr ps \<Rightarrow> ps = [])"


section \<open>The persisted store\<close>

text \<open>
  \<open>status\<close> is a string in the file; the model has the five values the program writes.
  Timestamps are epoch milliseconds.  A suspension end is compared by the program as
  the string the service sent (\<open>!==\<close>) and as a date in the expiry sweep; here it is
  the instant it denotes.  \<open>ratings\<close> is \<open>None\<close> for a record whose \<open>ratings\<close>
  field is absent from the file: the program reads \<open>player.ratings.length\<close> and calls
  \<open>playerData.ratings.push\<close> without a check, and both throw a \<open>TypeError\<close> then.
\<close>

datatype status = Active | Banned | Suspended | SuspensionExpired | DeletedAccount

record rating_sample =
  rating :: int
  position :: int
  timestamp :: int

record player_data =
  nick :: string
  countryCode :: "string option"
  firstSeen :: int
  ratings :: "rating_sample list option"
  lastSeen :: int
  status :: status
  suspendedUntil :: "int option"
  suspendedAt :: "int option"
  bannedAt :: "int option"
  deletedAt :: "int option"
  unbannedAt :: "int option"
  unsuspendedAt :: "int option"

text \<open>
  The coordinator is modelled on the store read at these types: a file whose JSON is an
  object of the store's shape, in which a record may still lack \<open>ratings\<close>.
  \<open>players\<close> keeps \<open>Object.entries\<close> order: an update keeps a key's place, a new key
  goes last.  \<open>currentCheckBans\<close> and \<open>currentCheckUnbans\<close> are the key sets of
  \<open>data.eventCache\<close> (its \<open>lastCleanup\<close> is never read); a file without
  \<open>eventCache\<close> is a store in which both are empty.
\<close>

record store =
  players :: "(string \<times> player_data) list"
  lastCheck :: "int option"
  totalChecks :: int
  currentCheckBans :: "string list"
  currentCheckUnbans :: "string list"

text \<open>
  What \<open>JSON.parse\<close> returns.  \<open>loadPlayerData\<close> hands it on as it is: nothing checks
  that it is an object, that it has \<open>players\<close>, or what a record holds.
\<close>

datatype json =
    JNull
  | JBool bool
  | JNumber int
  | JString string
  | JArray "json list"
  | JObject "(string \<times> json) list"

definition initial_state :: json where
  \<comment> \<open>\<open>{ players: {}, lastCheck: null, totalChecks: 0 }\<close>\<close>
  "initial_state =
     JObject [(''players'', JObject []), (''lastCheck'', JNull), (''totalChecks'', JNumber 0)]"

datatype file_state = Missing | Unreadable | Content string

definition existsSync :: "file_state \<Rightarrow> bool" where
  "existsSync f = (case f of Missing \<Rightarrow> False | Unreadable \<Rightarrow> True | Content s \<Rightarrow> True)"

definition readFileSync :: "file_state \<Rightarrow> string + string" where
  \<comment> \<open>\<open>Inl\<close>: the message of the error thrown\<close>
  "readFileSync f =
     (case f of
        Missing \<Rightarrow> Inl ''ENOENT: no such file or directory''
      | Unreadable \<Rightarrow> Inl ''EACCES: permission denied''
      | Content s \<Rightarrow> Inr s)"

definition loadPlayerData :: "(string \<Rightarrow> json option) \<Rightarrow> file_state \<Rightarrow> string + json" where
  \<comment> \<open>\<open>parse\<close> is \<open>JSON.parse\<close>, \<open>None\<close> where it throws a \<open>SyntaxError\<close>.  The inner
      value is what the \<open>try\<close> block does: throw (\<open>Inl\<close>), return a value
      (\<open>Inr (Some v)\<close>) or fall through (\<open>Inr None\<close>).  \<open>Inl\<close> in the result would be an
      error that leaves the function.\<close>
  "loadPlayerData parse f =
     (case (if existsSync f then
              (case readFileSync f of
                 Inl e \<Rightarrow> Inl e
               | Inr text \<Rightarrow>
                   (case parse text of
                      None \<Rightarrow> Inl ''SyntaxError''
                    | Some v \<Rightarrow> Inr (Some v)))
            else Inr None) of
        Inl error \<Rightarrow> Inr initial_state
      | Inr (Some v) \<Rightarrow> Inr v
      | Inr None \<Rightarrow> Inr initial_state)"

text \<open>
  A well-formed store value, as the data model has it and as the coordinator relies on
  without a check: an object whose \<open>players\<close> is an object of records, each an object
  with one of the five statuses, a numeric \<open>lastSeen\<close> and a \<open>ratings\<close> array;
  \<open>lastCheck\<close> absent, \<open>null\<close> or a number; \<open>totalChecks\<close> absent or a number.
\<close>

definition wellFormedRecord :: "json \<Rightarrow> bool" where
  "wellFormedRecord j =
     (case j of
        JObject fs \<Rightarrow>
          (case map_of fs ''status'' of
             Some (JString s) \<Rightarrow>
               s \<in> set [''active'', ''banned'', ''suspended'', ''suspension_expired'',
                         ''deleted_account'']
           | _ \<Rightarrow> False)
          \<and> (case map_of fs ''lastSeen'' of Some (JNumber t) \<Rightarrow> True | _ \<Rightarrow> False)
          \<and> (case map_of fs ''ratings'' of Some (JArray rs) \<Rightarrow> True | _ \<Rightarrow> False)
      | _ \<Rightarrow> False)"

definition wellFormedStore :: "json \<Rightarrow> bool" where
  "wellFormedStore j =
     (case j of
        JObject fs \<Rightarrow>
          (case map_of fs ''players'' of
             Some (JObject ps) \<Rightarrow> list_all (\<lambda>(uid, r). wellFormedRecord r) ps
           | _ \<Rightarrow> False)
          \<and> (case map_of fs ''lastCheck'' of
                None \<Rightarrow> True | Some JNull \<Rightarrow> True | Some (JNumber t) \<Rightarrow> True | _ \<Rightarrow> False)
          \<and> (case map_of fs ''totalChecks'' of
                None \<Rightarrow> True | Some (JNumber n) \<Rightarrow> True | _ \<Rightarrow> False)
      | _ \<Rightarrow> False)"

definition parseSample :: "string \<Rightarrow> json option" where
  \<comment> \<open>\<open>JSON.parse\<close> on the two texts used below: \<open>null\<close> and \<open>{}\<close> are valid JSON\<close>
  "parseSample text =
     (if text = ''null'' then Some JNull
      else if text = ''{}'' then Some (JObject [])
      else None)"

definition getPlayer :: "store \<Rightarrow> string \<Rightarrow> player_data option" where
  \<comment> \<open>\<open>data.players[userId]\<close>\<close>
  "getPlayer d uid = map_of (players d) uid"

definition setPlayer :: "string \<Rightarrow> player_data \<Rightarrow> store \<Rightarrow> store" where
  "setPlayer uid pd d = d\<lparr>players := AList.update uid pd (players d)\<rparr>"

definition js_or_time :: "int option \<Rightarrow> int \<Rightarrow> int" where
  \<comment> \<open>\<open>a || b\<close> on numbers: absent and \<open>0\<close> are falsy\<close>
  "js_or_time a b = (case a of None \<Rightarrow> b | Some t \<Rightarrow> if t = 0 then b else t)"


section \<open>What one check cycle works with and what it sends out\<close>

record lb_player =
  userId :: string
  lb_nick :: string
  lb_countryCode :: "string option"
  lb_rating :: int
  lb_position :: int

record missing_player =
  mp_userId :: string
  mp_data :: player_data
  mp_hoursSinceSeen :: int

text \<open>
  The objects the three verification functions return.  They are built ad hoc in the
  source; a field an object does not have reads as \<open>False\<close> or \<open>None\<close> here.
  \<open>lastRating\<close> is the pair (rating, position).
\<close>

record sanction_info =
  si_userId :: string
  si_nick :: string
  si_countryCode :: "string option"
  confirmedBanned :: bool
  si_suspended :: bool
  si_suspendedUntil :: "int option"
  lastRating :: "(int \<times> int) option"
  hoursSinceSeen :: int
  isNewSanction :: bool
  deletedAccount :: bool
  isNewDeletion :: bool

text \<open>
  The calls that leave the process: the three Discord notifications and the three CSV
  appenders.  An unban carries the user id and the status the entity is restored from.
  Status messages (\<open>sendStatusMessage(text, isError)\<close>) are kept in a list of their own.
\<close>

datatype notification =
    BanNotification "sanction_info list"
  | UnbanNotification string status
  | DeletedAccountNotification "sanction_info list"
  | BannedSuspendedCSV sanction_info
  | UnbannedUnsuspendedCSV string status
  | DeletedAccountsCSV sanction_info

datatype status_text =
    FailedToFetch
  | BotRestarted
  | CheckCompleted nat
  | CheckFailed string

datatype pass = Priority | FullPopulation | Reverification

type_synonym prober = "pass \<Rightarrow> string \<Rightarrow> string + probe_result"

type_synonym mem = "store \<times> notification list"

definition newPlayer :: "lb_player \<Rightarrow> int \<Rightarrow> player_data" where
  "newPlayer player currentTime =
     \<lparr>nick = lb_nick player, countryCode = lb_countryCode player, firstSeen = currentTime,
      ratings = Some [\<lparr>rating = lb_rating player, position = lb_position player,
                       timestamp = currentTime\<rparr>],
      lastSeen = currentTime, status = Active,
      suspendedUntil = None, suspendedAt = None, bannedAt = None, deletedAt = None,
      unbannedAt = None, unsuspendedAt = None\<rparr>"

definition banKey :: "sanction_info \<Rightarrow> string" where
  "banKey player =
     si_userId player @ ''_ban_'' @ (if confirmedBanned player then ''banned'' else ''suspended'')"

definition unbanKey :: "string \<Rightarrow> status \<Rightarrow> string" where
  "unbanKey uid previousStatus =
     uid @ ''_'' @ (if previousStatus = Banned then ''unban'' else ''unsuspend'')"

definition lastOf :: "rating_sample list \<Rightarrow> (int \<times> int) option" where
  \<comment> \<open>\<open>ratings[ratings.length - 1]\<close>, \<open>undefined\<close> on an empty array\<close>
  "lastOf rs = (if rs = [] then None else Some (rating (last rs), position (last rs)))"

definition computeIsNewSanction :: "probe_result \<Rightarrow> player_data \<Rightarrow> bool" where
  "computeIsNewSanction activityData pData =
     (if banned activityData then status pData \<noteq> Banned
      else if suspended activityData then
        (status pData \<noteq> Suspended \<or> suspendedUntil pData \<noteq> pr_suspendedUntil activityData)
      else False)"


section \<open>The three verification passes\<close>

text \<open>
  Each pass probes its entities in batches whose promises run concurrently.  A promise
  touches only the record of its own entity, and the results are collected in list
  order, so the model runs the entities one after another in list order.  Batch sizes,
  stagger and the adaptive delay between batches change when a probe is sent, not what
  a pass returns or writes; they are left out, as are the counters that drive them.
  A probe that throws is caught inside the promise and yields \<open>null\<close>.
\<close>

definition verifyMissingPlayer ::
  "(string \<Rightarrow> string + probe_result) \<Rightarrow> int \<Rightarrow> missing_player \<Rightarrow> store
     \<Rightarrow> sanction_info option \<times> store" where
  \<comment> \<open>one promise of \<open>verifyBannedPlayers\<close>\<close>
  "verifyMissingPlayer probe currentTime player d =
     (case probe (mp_userId player) of
        Inl err \<Rightarrow> (None, d)
      | Inr activityData \<Rightarrow>
          (case ratings (mp_data player) of
             None \<Rightarrow> (None, d)
           | Some rs \<Rightarrow>
               (case getPlayer d (mp_userId player) of
                  None \<Rightarrow> (None, d)
                | Some pData \<Rightarrow>
                    if deleted activityData then
                      (if status pData \<noteq> DeletedAccount then
                         (Some \<lparr>si_userId = mp_userId player, si_nick = nick (mp_data player),
                                 si_countryCode = countryCode (mp_data player),
                                 confirmedBanned = False, si_suspended = False,
                                 si_suspendedUntil = suspendedUntil (mp_data player),
                                 lastRating = lastOf rs,
                                 hoursSinceSeen = mp_hoursSinceSeen player,
                                 isNewSanction = False, deletedAccount = True,
                                 isNewDeletion = True\<rparr>,
                          setPlayer (mp_userId player)
                            (pData\<lparr>status := DeletedAccount, deletedAt := Some currentTime\<rparr>) d)
                       else (None, d))
                    else if banned activityData \<or> suspended activityData then
                      (Some \<lparr>si_userId = mp_userId player, si_nick = nick (mp_data player),
                              si_countryCode = pr_countryCode activityData,
                              confirmedBanned = banned activityData,
                              si_suspended = suspended activityData,
                              si_suspendedUntil = pr_suspendedUntil activityData,
                              lastRating = lastOf rs,
                              hoursSinceSeen = mp_hoursSinceSeen player,
                              isNewSanction = computeIsNewSanction activityData pData,
                              deletedAccount = False, isNewDeletion = False\<rparr>, d)
                    else (None, d))))"

fun verifyBannedPlayers ::
  "(string \<Rightarrow> string + probe_result) \<Rightarrow> int \<Rightarrow> missing_player list \<Rightarrow> store
     \<Rightarrow> sanction_info list \<times> store" where
  "verifyBannedPlayers probe currentTime [] d = ([], d)"
| "verifyBannedPlayers probe currentTime (player # rest) d =
     (case verifyMissingPlayer probe currentTime player d of
        (r, d') \<Rightarrow>
          (case verifyBannedPlayers probe currentTime rest d' of
             (rs, d'') \<Rightarrow> ((case r of None \<Rightarrow> rs | Some x \<Rightarrow> x # rs), d'')))"

definition verifyTopPlayer ::
  "(string \<Rightarrow> string + probe_result) \<Rightarrow> int \<Rightarrow> lb_player \<Rightarrow> store
     \<Rightarrow> sanction_info option \<times> store" where
  \<comment> \<open>one promise of \<open>verifyAllTop2000Players\<close>\<close>
  "verifyTopPlayer probe currentTime player d =
     (case probe (userId player) of
        Inl err \<Rightarrow> (None, d)
      | Inr activityData \<Rightarrow>
          (let playerData = (case getPlayer d (userId player) of
                               None \<Rightarrow> newPlayer player currentTime
                             | Some pd \<Rightarrow> pd);
               d1 = (case getPlayer d (userId player) of
                       None \<Rightarrow> setPlayer (userId player) playerData d
                     | Some pd \<Rightarrow> d)
           in if deleted activityData then
                (if status playerData \<noteq> DeletedAccount then
                   (Some \<lparr>si_userId = userId player, si_nick = lb_nick player,
                           si_countryCode = lb_countryCode player,
                           confirmedBanned = False, si_suspended = False,
                           si_suspendedUntil = None,
                           lastRating = Some (lb_rating player, lb_position player),
                           hoursSinceSeen = 0,
                           isNewSanction = False, deletedAccount = True,
                           isNewDeletion = True\<rparr>,
                    setPlayer (userId player)
                      (playerData\<lparr>status := DeletedAccount, deletedAt := Some currentTime\<rparr>) d1)
                 else (None, d1))
              else if banned activityData \<or> suspended activityData then
                (Some \<lparr>si_userId = userId player, si_nick = lb_nick player,
                        si_countryCode = pr_countryCode activityData,
                        confirmedBanned = banned activityData,
                        si_suspended = suspended activityData,
                        si_suspendedUntil = pr_suspendedUntil activityData,
                        lastRating = Some (lb_rating player, lb_position player),
                        hoursSinceSeen = 0,
                        isNewSanction = computeIsNewSanction activityData playerData,
                        deletedAccount = False, isNewDeletion = False\<rparr>, d1)
              else (None, d)))"

fun verifyAllTop2000Players ::
  "(string \<Rightarrow> string + probe_result) \<Rightarrow> int \<Rightarrow> lb_player list \<Rightarrow> store
     \<Rightarrow> sanction_info list \<times> store" where
  "verifyAllTop2000Players probe currentTime [] d = ([], d)"
| "verifyAllTop2000Players probe currentTime (player # rest) d =
     (case verifyTopPlayer probe currentTime player d of
        (r, d') \<Rightarrow>
          (case verifyAllTop2000Players probe currentTime rest d' of
             (rs, d'') \<Rightarrow> ((case r of None \<Rightarrow> rs | Some x \<Rightarrow> x # rs), d'')))"

definition restoreSanctioned :: "int \<Rightarrow> string \<Rightarrow> player_data \<Rightarrow> mem \<Rightarrow> mem" where
  \<comment> \<open>the branch of \<open>verifyExistingSanctionedPlayers\<close> for a probe that reports neither
      banned nor suspended while the record is banned or suspended; the leaderboard it
      fetches first is never used and \<open>fetchCurrentLeaderboard\<close> does not throw\<close>
  "restoreSanctioned currentTime uid playerData m =
     (case m of (d, out) \<Rightarrow>
        (let key = unbanKey uid (status playerData) in
         if key \<notin> set (currentCheckUnbans d) then
           (let d1 = d\<lparr>currentCheckUnbans := currentCheckUnbans d @ [key]\<rparr>;
                out1 = (if status playerData = Banned
                        then out @ [UnbanNotification uid (status playerData)]
                        else out);
                pd1 = (if status playerData = Banned
                       then playerData\<lparr>unbannedAt := Some currentTime\<rparr>
                       else playerData\<lparr>unsuspendedAt := Some currentTime\<rparr>)
            in (setPlayer uid (pd1\<lparr>status := Active, suspendedUntil := None,
                                    suspendedAt := None\<rparr>) d1,
                out1 @ [UnbannedUnsuspendedCSV uid (status playerData)]))
         else (d, out)))"

definition statusChange ::
  "int \<Rightarrow> string \<Rightarrow> player_data \<Rightarrow> rating_sample list \<Rightarrow> probe_result \<Rightarrow> sanction_info" where
  "statusChange currentTime uid player rs activityData =
     \<lparr>si_userId = uid, si_nick = nick player,
      si_countryCode = pr_countryCode activityData,
      confirmedBanned = banned activityData,
      si_suspended = suspended activityData,
      si_suspendedUntil = pr_suspendedUntil activityData,
      lastRating = lastOf rs,
      hoursSinceSeen = (currentTime - lastSeen player) div (60 * 60 * 1000),
      isNewSanction = True, deletedAccount = False, isNewDeletion = False\<rparr>"

definition verifySanctionedPlayer ::
  "(string \<Rightarrow> string + probe_result) \<Rightarrow> int \<Rightarrow> string \<times> player_data \<Rightarrow> mem
     \<Rightarrow> sanction_info option \<times> mem" where
  \<comment> \<open>one promise of \<open>verifyExistingSanctionedPlayers\<close>; \<open>player\<close> is the copy taken
      when the list was built, \<open>playerData\<close> the live record\<close>
  "verifySanctionedPlayer probe currentTime entry m =
     (case entry of (uid, player) \<Rightarrow>
      case m of (d, out) \<Rightarrow>
        (case probe uid of
           Inl err \<Rightarrow> (None, m)
         | Inr activityData \<Rightarrow>
             (case ratings player of
                None \<Rightarrow> (None, m)
              | Some rs \<Rightarrow>
                  (case getPlayer d uid of
                     None \<Rightarrow> (None, m)
                   | Some playerData \<Rightarrow>
                       if deleted activityData then
                         (if status playerData \<noteq> DeletedAccount then
                            (Some \<lparr>si_userId = uid, si_nick = nick player,
                                    si_countryCode = countryCode player,
                                    confirmedBanned = False, si_suspended = False,
                                    si_suspendedUntil = None,
                                    lastRating = lastOf rs,
                                    hoursSinceSeen = 0,
                                    isNewSanction = False, deletedAccount = True,
                                    isNewDeletion = True\<rparr>,
                             (setPlayer uid
                                (playerData\<lparr>status := DeletedAccount,
                                             deletedAt := Some currentTime\<rparr>) d, out))
                          else (None, m))
                       else if banned activityData then
                         (if status playerData \<noteq> Banned
                          then (Some (statusChange currentTime uid player rs activityData), m)
                          else (None, m))
                       else if suspended activityData then
                         (if status playerData = Banned
                          then (Some (statusChange currentTime uid player rs activityData), m)
                          else if status playerData = Suspended then
                            (if suspendedUntil playerData \<noteq> pr_suspendedUntil activityData
                             then (Some (statusChange currentTime uid player rs activityData), m)
                             else (None, m))
                          else (Some (statusChange currentTime uid player rs activityData), m))
                       else
                         (if status playerData = Banned \<or> status playerData = Suspended
                          then (None, restoreSanctioned currentTime uid playerData m)
                          else (None, m))))))"

fun verifyExistingSanctionedPlayers ::
  "(string \<Rightarrow> string + probe_result) \<Rightarrow> int \<Rightarrow> (string \<times> player_data) list \<Rightarrow> mem
     \<Rightarrow> sanction_info list \<times> mem" where
  "verifyExistingSanctionedPlayers probe currentTime [] m = ([], m)"
| "verifyExistingSanctionedPlayers probe currentTime (entry # rest) m =
     (case verifySanctionedPlayer probe currentTime entry m of
        (r, m') \<Rightarrow>
          (case verifyExistingSanctionedPlayers probe currentTime rest m' of
             (rs, m'') \<Rightarrow> ((case r of None \<Rightarrow> rs | Some x \<Rightarrow> x # rs), m'')))"


section \<open>The cycle coordinator\<close>

definition findMissingPlayers :: "store \<Rightarrow> lb_player list \<Rightarrow> int \<Rightarrow> missing_player list" where
  "findMissingPlayers d currentPlayers currentTime =
     concat (map (\<lambda>(uid, playerData).
        if lastSeen playerData > currentTime - 6 * 60 * 60 * 1000 \<and> status playerData = Active
        then
          (if \<not> list_ex (\<lambda>p. userId p = uid) currentPlayers then
             (let h = (currentTime - lastSeen playerData) div (60 * 60 * 1000)
              in if h \<ge> 1 \<and> h < 24
                 then [\<lparr>mp_userId = uid, mp_data = playerData, mp_hoursSinceSeen = h\<rparr>]
                 else [])
           else [])
        else []) (players d))"

definition recordSanction :: "int \<Rightarrow> sanction_info \<Rightarrow> mem \<Rightarrow> mem" where
  \<comment> \<open>the body of the loop that follows \<open>sendBanNotification\<close>, in the priority pass and
      at the end of the cycle\<close>
  "recordSanction currentTime player m =
     (case m of (d, out) \<Rightarrow>
        if banKey player \<notin> set (currentCheckBans d) then
          (let d1 = d\<lparr>currentCheckBans := currentCheckBans d @ [banKey player]\<rparr>;
               out1 = out @ [BannedSuspendedCSV player]
           in case getPlayer d1 (si_userId player) of
                None \<Rightarrow> (d1, out1)
              | Some p \<Rightarrow>
                  if confirmedBanned player then
                    (setPlayer (si_userId player)
                       (p\<lparr>bannedAt := (if status p \<noteq> Banned then Some currentTime else bannedAt p),
                          status := Banned, suspendedUntil := None, suspendedAt := None\<rparr>) d1,
                     out1)
                  else if si_suspended player then
                    (setPlayer (si_userId player)
                       (p\<lparr>suspendedAt :=
                            (if status p \<noteq> Suspended \<or> suspendedUntil p \<noteq> si_suspendedUntil player
                             then Some currentTime else suspendedAt p),
                          status := Suspended,
                          suspendedUntil := si_suspendedUntil player\<rparr>) d1,
                     out1)
                  else (d1, out1))
        else m)"

definition notifySanctions :: "int \<Rightarrow> sanction_info list \<Rightarrow> mem \<Rightarrow> mem" where
  \<comment> \<open>\<open>if (newBans.length > 0) { await sendBanNotification(newBans); for (...) {...} }\<close>\<close>
  "notifySanctions currentTime newBans m =
     (if newBans \<noteq> [] then
        (case m of (d, out) \<Rightarrow>
           foldl (\<lambda>m' player. recordSanction currentTime player m')
             (d, out @ [BanNotification newBans]) newBans)
      else m)"

definition notifyDeletions :: "sanction_info list \<Rightarrow> mem \<Rightarrow> mem" where
  "notifyDeletions newDeletions m =
     (if newDeletions \<noteq> [] then
        (case m of (d, out) \<Rightarrow>
           (d, out @ [DeletedAccountNotification newDeletions] @ map DeletedAccountsCSV newDeletions))
      else m)"

definition isNewBan :: "sanction_info \<Rightarrow> bool" where
  "isNewBan p = (isNewSanction p \<and> \<not> deletedAccount p)"

definition isNewDeletedAccount :: "sanction_info \<Rightarrow> bool" where
  "isNewDeletedAccount p = (deletedAccount p \<and> isNewDeletion p)"

text \<open>
  The priority pass returns what it found, the state in memory, and the store on disk:
  \<open>savePlayerData(data)\<close> runs in the middle of the cycle when the pass found anything.
  Writing the file is taken to succeed.
\<close>

definition priorityPass ::
  "prober \<Rightarrow> int \<Rightarrow> missing_player list \<Rightarrow> store \<Rightarrow> mem \<Rightarrow> sanction_info list \<times> mem \<times> store" where
  "priorityPass probe currentTime missingPlayers disk0 m =
     (case m of (d, out) \<Rightarrow>
        if missingPlayers \<noteq> [] then
          (case verifyBannedPlayers (probe Priority) currentTime missingPlayers d of
             (priorityBannedPlayers, d1) \<Rightarrow>
               if priorityBannedPlayers \<noteq> [] then
                 (let m2 = notifySanctions currentTime (filter isNewBan priorityBannedPlayers) (d1, out);
                      m3 = notifyDeletions (filter isNewDeletedAccount priorityBannedPlayers) m2
                  in (priorityBannedPlayers, m3, fst m3))
               else ([], (d1, out), disk0))
        else ([], m, disk0))"

definition applyApiSanction :: "int \<Rightarrow> sanction_info \<Rightarrow> player_data \<Rightarrow> player_data" where
  "applyApiSanction currentTime apiSanction playerData =
     (if isNewSanction apiSanction then
        (if confirmedBanned apiSanction then
           playerData\<lparr>status := Banned,
                        bannedAt := Some (js_or_time (bannedAt playerData) currentTime),
                        suspendedUntil := None, suspendedAt := None\<rparr>
         else
           playerData\<lparr>status := Suspended,
                        suspendedAt := Some (js_or_time (suspendedAt playerData) currentTime),
                        suspendedUntil := si_suspendedUntil apiSanction\<rparr>)
      else if status playerData = Active then
        (if confirmedBanned apiSanction then
           playerData\<lparr>status := Banned,
                        bannedAt := Some (js_or_time (bannedAt playerData) currentTime)\<rparr>
         else
           playerData\<lparr>status := Suspended,
                        suspendedAt := Some (js_or_time (suspendedAt playerData) currentTime),
                        suspendedUntil := si_suspendedUntil apiSanction\<rparr>)
      else playerData)"

definition restoreListed ::
  "bool \<Rightarrow> int \<Rightarrow> string \<Rightarrow> player_data \<Rightarrow> mem \<Rightarrow> player_data \<times> mem" where
  \<comment> \<open>the \<open>else if (!alreadyProcessedByPriority)\<close> branch of the loop over the snapshot:
      the entity is listed and no pass reported a sanction for it\<close>
  "restoreListed isFirstCheckAfterRestart currentTime uid playerData m =
     (case m of (d, out) \<Rightarrow>
        if (status playerData = Banned \<or> status playerData = Suspended
              \<or> status playerData = SuspensionExpired)
           \<and> status playerData \<noteq> DeletedAccount \<and> \<not> isFirstCheckAfterRestart
        then
          (let previousStatus = status playerData;
               key = unbanKey uid previousStatus
           in if key \<notin> set (currentCheckUnbans d) then
                (let d1 = d\<lparr>currentCheckUnbans := currentCheckUnbans d @ [key]\<rparr>;
                     out1 = (if previousStatus = Banned
                             then out @ [UnbanNotification uid previousStatus]
                             else out);
                     pd1 = (if previousStatus = Banned
                            then playerData\<lparr>unbannedAt := Some currentTime\<rparr>
                            else playerData\<lparr>unsuspendedAt := Some currentTime\<rparr>)
                 in (pd1\<lparr>status := Active\<rparr>,
                     (d1, out1 @ [UnbannedUnsuspendedCSV uid previousStatus])))
              else (playerData, m))
        else if status playerData \<noteq> Active \<and> status playerData \<noteq> DeletedAccount then
          (playerData\<lparr>status := Active\<rparr>, m)
        else (playerData, m))"

definition trackPlayer ::
  "bool \<Rightarrow> int \<Rightarrow> sanction_info list \<Rightarrow> sanction_info list \<Rightarrow> lb_player \<Rightarrow> mem
     \<Rightarrow> string option \<times> mem" where
  \<comment> \<open>one iteration of \<open>for (const player of currentPlayers)\<close>; \<open>Some\<close> in the first
      component is the message of a \<open>TypeError\<close> thrown by \<open>playerData.ratings.push\<close>,
      paired with what had been sent by then\<close>
  "trackPlayer isFirstCheckAfterRestart currentTime top2000ApiSanctionInfo priorityBannedPlayers
       player m =
     (case m of (d, out) \<Rightarrow>
        (case getPlayer d (userId player) of
          None \<Rightarrow> (None, (setPlayer (userId player) (newPlayer player currentTime) d, out))
        | Some pd0 \<Rightarrow>
            (let playerData = pd0\<lparr>nick := lb_nick player, lastSeen := currentTime\<rparr>;
                 apiSanction = find (\<lambda>s. si_userId s = userId player) top2000ApiSanctionInfo;
                 alreadyProcessedByPriority =
                   list_ex (\<lambda>p. si_userId p = userId player) priorityBannedPlayers
             in case (case apiSanction of
                        Some s \<Rightarrow>
                          if \<not> alreadyProcessedByPriority
                          then (applyApiSanction currentTime s playerData, m)
                          else (playerData, m)
                      | None \<Rightarrow>
                          if \<not> alreadyProcessedByPriority
                          then restoreListed isFirstCheckAfterRestart currentTime (userId player)
                                 playerData m
                          else (playerData, m)) of
                  (pd', (d', out')) \<Rightarrow>
                    (case ratings pd' of
                       None \<Rightarrow>
                         (Some ''Cannot read properties of undefined (reading 'push')'', (d', out'))
                     | Some rs \<Rightarrow>
                         (let rs' = rs @ [\<lparr>rating = lb_rating player,
                                            position = lb_position player,
                                            timestamp = currentTime\<rparr>]
                          in (None,
                              (setPlayer (userId player)
                                 (pd'\<lparr>ratings := Some (drop (length rs' - 30) rs')\<rparr>) d',
                               out')))))))"

fun trackPlayers ::
  "bool \<Rightarrow> int \<Rightarrow> sanction_info list \<Rightarrow> sanction_info list \<Rightarrow> lb_player list \<Rightarrow> mem
     \<Rightarrow> string option \<times> mem" where
  "trackPlayers isFirst currentTime top2000 priority [] m = (None, m)"
| "trackPlayers isFirst currentTime top2000 priority (player # rest) m =
     (case trackPlayer isFirst currentTime top2000 priority player m of
        (Some e, m') \<Rightarrow> (Some e, m')
      | (None, m') \<Rightarrow> trackPlayers isFirst currentTime top2000 priority rest m')"

definition expireSuspensions :: "int \<Rightarrow> store \<Rightarrow> store" where
  \<comment> \<open>the expiry sweep: no probe, only the clock\<close>
  "expireSuspensions currentTime d =
     d\<lparr>players :=
         map (\<lambda>(uid, playerData).
                (uid,
                 case suspendedUntil playerData of
                   None \<Rightarrow> playerData
                 | Some t \<Rightarrow>
                     if status playerData = Suspended \<and> currentTime \<ge> t
                     then playerData\<lparr>status := SuspensionExpired, suspendedUntil := None,
                                      suspendedAt := None\<rparr>
                     else playerData))
             (players d)\<rparr>"

definition existingSanctionedPlayers :: "int \<Rightarrow> store \<Rightarrow> (string \<times> player_data) list" where
  "existingSanctionedPlayers currentTime d =
     filter (\<lambda>(uid, playerData).
               (status playerData = Suspended \<or> status playerData = Banned)
               \<and> status playerData \<noteq> DeletedAccount
               \<and> lastSeen playerData > currentTime - 7 * 24 * 60 * 60 * 1000)
            (players d)"

definition isFirstCheckAfterRestart :: "store \<Rightarrow> int \<Rightarrow> bool" where
  \<comment> \<open>\<open>!data.lastCheck || (currentTime - data.lastCheck) > (3 * 60 * 60 * 1000)\<close>\<close>
  "isFirstCheckAfterRestart d currentTime =
     (case lastCheck d of
        None \<Rightarrow> True
      | Some t \<Rightarrow> t = 0 \<or> currentTime - t > 3 * 60 * 60 * 1000)"

datatype abort = SnapshotUnavailable | Exception string

record cycle =
  disk :: store
  sent :: "notification list"
  statusMessages :: "(status_text \<times> bool) list"
  aborted :: "abort option"

definition finishCycle ::
  "prober \<Rightarrow> int \<Rightarrow> bool \<Rightarrow> sanction_info list \<Rightarrow> sanction_info list \<Rightarrow> mem \<Rightarrow> cycle" where
  \<comment> \<open>from the restart message to the end of the \<open>try\<close> block\<close>
  "finishCycle probe currentTime isFirst priorityBannedPlayers top2000ApiSanctionInfo m =
     (case m of (d, out) \<Rightarrow>
        let d1 = expireSuspensions currentTime d;
            existing = existingSanctionedPlayers currentTime d1
        in case (if existing \<noteq> []
                 then verifyExistingSanctionedPlayers (probe Reverification) currentTime existing
                        (d1, out)
                 else ([], (d1, out))) of
             (existingSanctionedApiInfo, m2) \<Rightarrow>
               (let allSanctionsFromApi = top2000ApiSanctionInfo @ existingSanctionedApiInfo;
                    allDeletedAccounts = filter isNewDeletedAccount allSanctionsFromApi;
                    allNewSanctionEvents = filter isNewBan allSanctionsFromApi;
                    m3 = notifySanctions currentTime allNewSanctionEvents m2;
                    m4 = notifyDeletions allDeletedAccounts m3;
                    saved = (fst m4)\<lparr>lastCheck := Some currentTime,
                                     totalChecks := totalChecks (fst m4) + 1\<rparr>;
                    totalNewBans = length (filter isNewBan priorityBannedPlayers)
                                     + length allNewSanctionEvents
                in \<lparr>disk = saved, sent = snd m4,
                     statusMessages =
                       (if isFirst then [(BotRestarted, False)] else [])
                       @ [(CheckCompleted totalNewBans, False)],
                     aborted = None\<rparr>))"

definition checkForBannedPlayers :: "store \<Rightarrow> lb_player list \<Rightarrow> int \<Rightarrow> prober \<Rightarrow> cycle" where
  \<comment> \<open>\<open>disk0\<close> is the store \<open>loadPlayerData\<close> returned, read at the store's types,
      \<open>currentPlayers\<close> what \<open>fetchCurrentLeaderboard\<close> returned, \<open>currentTime\<close> the
      clock read after the fetch, \<open>probe\<close> what \<open>getUserActivity\<close> returns or throws
      for an entity in each pass\<close>
  "checkForBannedPlayers disk0 currentPlayers currentTime probe =
     (let d0 = disk0\<lparr>currentCheckBans := [], currentCheckUnbans := []\<rparr>;
          isFirst = isFirstCheckAfterRestart d0 currentTime
      in if currentPlayers = [] then
           \<lparr>disk = disk0, sent = [], statusMessages = [(FailedToFetch, True)],
            aborted = Some SnapshotUnavailable\<rparr>
         else
           (case priorityPass probe currentTime
                   (findMissingPlayers d0 currentPlayers currentTime) disk0 (d0, []) of
              (priorityBannedPlayers, (d1, out1), disk1) \<Rightarrow>
                (case verifyAllTop2000Players (probe FullPopulation) currentTime currentPlayers d1 of
                   (top2000ApiSanctionInfo, d2) \<Rightarrow>
                     (case trackPlayers isFirst currentTime top2000ApiSanctionInfo
                             priorityBannedPlayers currentPlayers (d2, out1) of
                        (Some e, (d3, out3)) \<Rightarrow>
                          \<lparr>disk = disk1, sent = out3,
                           statusMessages = [(CheckFailed e, True)],
                           aborted = Some (Exception e)\<rparr>
                      | (None, m3) \<Rightarrow>
                          finishCycle probe currentTime isFirst priorityBannedPlayers
                            top2000ApiSanctionInfo m3))))"


section \<open>Concrete cycles\<close>

text \<open>
  Stores, snapshots and probe answers on which the coordinator is run below.  A probe
  answer is what \<open>getUserActivity\<close> makes of a user payload or of an executor failure.
\<close>

definition hours :: "int \<Rightarrow> int" where
  "hours n = n * (60 * 60 * 1000)"

definition cycleTime :: int where
  "cycleTime = hours 1000"

definition tracked :: "string \<Rightarrow> int \<Rightarrow> status \<Rightarrow> int option \<Rightarrow> player_data" where
  "tracked name seen st until =
     \<lparr>nick = name, countryCode = Some ''fr'', firstSeen = 0,
      ratings = Some [\<lparr>rating = 1500, position = 5, timestamp = seen\<rparr>],
      lastSeen = seen, status = st, suspendedUntil = until,
      suspendedAt = None, bannedAt = None, deletedAt = None,
      unbannedAt = None, unsuspendedAt = None\<rparr>"

definition listed :: "string \<Rightarrow> lb_player" where
  "listed uid =
     \<lparr>userId = uid, lb_nick = uid, lb_countryCode = Some ''fr'', lb_rating = 1500,
      lb_position = 5\<rparr>"

definition reports :: "bool \<Rightarrow> int option \<Rightarrow> string + probe_result" where
  \<comment> \<open>the probe of a user whose payload has this ban flag and this suspension end\<close>
  "reports ban until =
     getUserActivity
       (Inr \<lparr>isBanned = ban, r_banned = False, r_suspendedUntil = until,
             r_suspended_until = None, r_countryCode = Some ''fr'', r_country_code = None\<rparr>) cycleTime"

definition forbidden :: "string + probe_result" where
  \<comment> \<open>the probe of a user for whom the executor gave up on HTTP 403\<close>
  "forbidden = getUserActivity (Inl ''HTTP 403: User not accessible'') cycleTime"

definition stored :: "(string \<times> player_data) list \<Rightarrow> int option \<Rightarrow> store" where
  "stored ps checked =
     \<lparr>players = ps, lastCheck = checked, totalChecks = 5,
      currentCheckBans = [], currentCheckUnbans = []\<rparr>"

definition notifiedBans :: "notification list \<Rightarrow> sanction_info list" where
  \<comment> \<open>the entries of all ban notifications sent, in order\<close>
  "notifiedBans out = concat (map (\<lambda>n. case n of BanNotification ps \<Rightarrow> ps | _ \<Rightarrow> []) out)"

definition banNotifications :: "notification list \<Rightarrow> nat" where
  \<comment> \<open>how many times \<open>sendBanNotification\<close> sent a message\<close>
  "banNotifications out =
     length (filter (\<lambda>n. case n of BanNotification ps \<Rightarrow> True | _ \<Rightarrow> False) out)"

definition notifiedDeletions :: "notification list \<Rightarrow> string list" where
  "notifiedDeletions out =
     concat (map (\<lambda>n. case n of DeletedAccountNotification ps \<Rightarrow> map si_userId ps | _ \<Rightarrow> [])
               out)"

definition statusOf :: "store \<Rightarrow> string \<Rightarrow> status option" where
  "statusOf d uid = map_option status (getPlayer d uid)"

definition suspensionOf :: "store \<Rightarrow> string \<Rightarrow> (status \<times> int option) option" where
  "suspensionOf d uid = map_option (\<lambda>p. (status p, suspendedUntil p)) (getPlayer d uid)"

definition resuspended :: cycle where
  \<comment> \<open>X is active, seen two hours ago and off the snapshot; the priority probe finds it
      suspended for a day, the re-verification probe finds the end moved to two days\<close>
  "resuspended =
     checkForBannedPlayers
       (stored [(''X'', tracked ''X'' (cycleTime - hours 2) Active None)] (Some (cycleTime - hours 1)))
       [listed ''Y''] cycleTime
       (\<lambda>p uid. if uid = ''X''
                 then (if p = Priority then reports False (Some (cycleTime + hours 24))
                       else reports False (Some (cycleTime + hours 48)))
                 else reports False None)"

definition listedTwice :: cycle where
  \<comment> \<open>X is active and appears on two pages of the snapshot; every probe finds it banned\<close>
  "listedTwice =
     checkForBannedPlayers
       (stored [(''X'', tracked ''X'' (cycleTime - hours 1) Active None)] (Some (cycleTime - hours 1)))
       [listed ''X'', listed ''X''] cycleTime (\<lambda>p uid. reports True None)"

definition restartedUnlisted :: cycle where
  \<comment> \<open>the process was down and the last check is thirty hours old; X is stored banned,
      seen two days ago, off the snapshot, and the probe finds no sanction\<close>
  "restartedUnlisted =
     checkForBannedPlayers
       (stored [(''X'', tracked ''X'' (cycleTime - hours 48) Banned None)]
          (Some (cycleTime - hours 30)))
       [listed ''Y''] cycleTime (\<lambda>p uid. reports False None)"

definition restartedListed :: cycle where
  \<comment> \<open>the same store and probes, with X on the snapshot\<close>
  "restartedListed =
     checkForBannedPlayers
       (stored [(''X'', tracked ''X'' (cycleTime - hours 48) Banned None)]
          (Some (cycleTime - hours 30)))
       [listed ''X''] cycleTime (\<lambda>p uid. reports False None)"

definition longGapUnlisted :: cycle where
  \<comment> \<open>the last check was four hours ago; Z is stored banned, off the snapshot, and the
      probe finds no sanction\<close>
  "longGapUnlisted =
     checkForBannedPlayers
       (stored [(''Z'', tracked ''Z'' (cycleTime - hours 48) Banned None)] (Some (cycleTime - hours 4)))
       [listed ''Y''] cycleTime (\<lambda>p uid. reports False None)"

definition forbiddenOnce :: cycle where
  \<comment> \<open>X is active and listed; its probe meets HTTP 403\<close>
  "forbiddenOnce =
     checkForBannedPlayers
       (stored [(''X'', tracked ''X'' (cycleTime - hours 1) Active None)] (Some (cycleTime - hours 1)))
       [listed ''X''] cycleTime (\<lambda>p uid. forbidden)"

definition bannedAfterDeletion :: cycle where
  \<comment> \<open>the next cycle, an hour later: X is listed and the probe finds it banned\<close>
  "bannedAfterDeletion =
     checkForBannedPlayers (disk forbiddenOnce) [listed ''X''] (cycleTime + hours 1)
       (\<lambda>p uid. reports True None)"

definition deletedAgain :: cycle where
  \<comment> \<open>the cycle after that: the probe meets HTTP 403 again\<close>
  "deletedAgain =
     checkForBannedPlayers (disk bannedAfterDeletion) [listed ''X''] (cycleTime + hours 2)
       (\<lambda>p uid. forbidden)"

definition brokenRecordStore :: store where
  \<comment> \<open>A is active, seen two hours ago; the record of B has no \<open>ratings\<close> field\<close>
  "brokenRecordStore =
     stored [(''A'', tracked ''A'' (cycleTime - hours 2) Active None),
             (''B'', (tracked ''B'' (cycleTime - hours 1) Active None)\<lparr>ratings := None\<rparr>)]
       (Some (cycleTime - hours 1))"

definition brokenRecordProbe :: prober where
  "brokenRecordProbe = (\<lambda>p uid. if uid = ''A'' then reports True None else reports False None)"

definition brokenRecord :: cycle where
  \<comment> \<open>B is listed, A is not; the probe finds A banned\<close>
  "brokenRecord = checkForBannedPlayers brokenRecordStore [listed ''B''] cycleTime brokenRecordProbe"

definition liftedEarly :: cycle where
  \<comment> \<open>X is stored suspended for two more days and listed; the probe finds no sanction\<close>
  "liftedEarly =
     checkForBannedPlayers
       (stored [(''X'', tracked ''X'' (cycleTime - hours 1) Suspended (Some (cycleTime + hours 48)))]
          (Some (cycleTime - hours 1)))
       [listed ''X''] cycleTime (\<lambda>p uid. reports False None)"

definition liftedEarlyUnlisted :: cycle where
  \<comment> \<open>the same store and probes, with X off the snapshot\<close>
  "liftedEarlyUnlisted =
     checkForBannedPlayers
       (stored [(''X'', tracked ''X'' (cycleTime - hours 1) Suspended (Some (cycleTime + hours 48)))]
          (Some (cycleTime - hours 1)))
       [listed ''Y''] cycleTime (\<lambda>p uid. reports False None)"


section \<open>Properties of the request executor and the prober\<close>











lemma show_int_15: "show_int 15 = ''15''"
  by code_simp

lemma rate_limit_message:
  "attemptRequest (Status 429 None body) = Inl ''Rate limited. Retry after 15 seconds''"
  by (simp add: attemptRequest_def retryAfter_or_15_def show_int_15)

lemma rate_limit_wait_flat:
  "waitTime ''Rate limited. Retry after 15 seconds'' attempt = Some 15000"
proof -
  have a: "str_includes ''Rate limited. Retry after 15 seconds'' ''Rate limited''"
    by code_simp
  have b: "str_includes ''Rate limited. Retry after 15 seconds'' ''Retry after''"
    by code_simp
  have c: "first_digits ''Rate limited. Retry after 15 seconds'' = Some ''15''"
    by code_simp
  have d: "parse_digits ''15'' = 15"
    by code_simp
  show ?thesis
    by (simp add: waitTime_def a b c d)
qed

text \<open>
  C6, at the input where the code leaves the claim.  The service answers 429 twice
  with no \<open>Retry-After\<close> header and then 200.  The rejection message is built with
  \<open>parseInt(...) || 15\<close>, so it always contains "Retry after 15", the branch that reads
  the number back is always taken, and the executor waits 15 s after both attempts; the
  escalating formula \<open>min(15000 + attempt * 5000, 45000)\<close> of the other branch, which
  would give 20 s after the second attempt, is never reached: after a 429 without a hint
  the wait is 15 s whatever the attempt number.
\<close>

theorem makeAPIRequest_flat_rate_limit_wait:
  "makeAPIRequest (\<lambda>k. if k < 2 then Status 429 None None else Status 200 None (Some ())) 3
     = (Resolved (), [15000, 15000])
   \<and> attemptRequest (Status 429 None (None :: unit option))
       = Inl ''Rate limited. Retry after 15 seconds''
   \<and> (\<forall>attempt. waitTime ''Rate limited. Retry after 15 seconds'' attempt = Some 15000)"
proof -
  have "makeAPIRequest (\<lambda>k. if k < 2 then Status 429 None None else Status 200 None (Some ())) 3
          = (Resolved (), [15000, 15000])"
    by code_simp
  then show ?thesis
    by (simp add: rate_limit_message rate_limit_wait_flat)
qed














text \<open>
  What the amended statement of C8 below leaves out.  The prober tells a 404 from other
  failures by looking for "404" in the message, and the message of a rate limit holds
  the number the service sent: a 429 whose hint is 404 is read as a missing account.
\<close>

lemma rate_limit_hint_read_as_not_found:
  "fst (makeAPIRequest (\<lambda>k. Status 429 (Some 404) (None :: user_response option)) 3)
     = Rejected (Some ''Rate limited. Retry after 404 seconds'')
   \<and> getUserActivity (Inl ''Rate limited. Retry after 404 seconds'') 0 = Inr not_accessible"
  by code_simp




section \<open>Loading the store\<close>

lemma loadPlayerData_returns: "\<exists>v. loadPlayerData parse f = Inr v"
  by (cases f) (auto simp: loadPlayerData_def existsSync_def readFileSync_def split: option.splits)

lemma wellFormed_initial_state: "wellFormedStore initial_state"
  by (simp add: wellFormedStore_def initial_state_def)

text \<open>
  C10, as the claim states it, fails in its conclusion.  The texts \<open>null\<close> and \<open>{}\<close>
  are valid JSON: \<open>loadPlayerData\<close> returns what \<open>JSON.parse\<close> makes of them, and the
  cycle starts from a value that is not a store.
\<close>

theorem loadPlayerData_returns_unchecked:
  "loadPlayerData parseSample (Content ''null'') = Inr JNull
   \<and> \<not> wellFormedStore JNull
   \<and> loadPlayerData parseSample (Content ''{}'') = Inr (JObject [])
   \<and> \<not> wellFormedStore (JObject [])"
  by (simp add: loadPlayerData_def existsSync_def readFileSync_def parseSample_def
        wellFormedStore_def)

text \<open>
  C10, amended.  \<open>loadPlayerData\<close> returns a value in every state of the file: no error
  leaves it.  For a missing file, a file that cannot be read and a file whose text
  \<open>JSON.parse\<close> rejects, the value is the initial state
  \<open>{players: {}, lastCheck: null, totalChecks: 0}\<close>, which is a well-formed store.  Text
  that parses is returned as parsed, unchecked: what the cycle starts from is a
  well-formed store unless it is what the file's text parsed to.
\<close>

theorem loadPlayerData_total:
  "(\<exists>v. loadPlayerData parse f = Inr v)
   \<and> (f = Missing \<or> f = Unreadable \<or> (\<exists>text. f = Content text \<and> parse text = None)
        \<longrightarrow> loadPlayerData parse f = Inr initial_state)
   \<and> wellFormedStore initial_state
   \<and> (\<forall>text v. f = Content text \<and> parse text = Some v \<longrightarrow> loadPlayerData parse f = Inr v)
   \<and> (\<forall>v. loadPlayerData parse f = Inr v
          \<longrightarrow> wellFormedStore v \<or> (\<exists>text. f = Content text \<and> parse text = Some v))"
proof (intro conjI)
  show "\<exists>v. loadPlayerData parse f = Inr v"
    by (rule loadPlayerData_returns)
  show "f = Missing \<or> f = Unreadable \<or> (\<exists>text. f = Content text \<and> parse text = None)
        \<longrightarrow> loadPlayerData parse f = Inr initial_state"
    by (auto simp: loadPlayerData_def existsSync_def readFileSync_def)
  show "wellFormedStore initial_state"
    by (rule wellFormed_initial_state)
  show "\<forall>text v. f = Content text \<and> parse text = Some v \<longrightarrow> loadPlayerData parse f = Inr v"
    by (auto simp: loadPlayerData_def existsSync_def readFileSync_def)
  show "\<forall>v. loadPlayerData parse f = Inr v
          \<longrightarrow> wellFormedStore v \<or> (\<exists>text. f = Content text \<and> parse text = Some v)"
    using wellFormed_initial_state
    by (cases f)
       (auto simp: loadPlayerData_def existsSync_def readFileSync_def split: option.splits)
qed

theorem loadPlayerData_total_witness:
  "loadPlayerData parseSample Missing = Inr initial_state
   \<and> loadPlayerData parseSample Unreadable = Inr initial_state
   \<and> loadPlayerData parseSample (Content ''{ players: '') = Inr initial_state
   \<and> loadPlayerData parseSample (Content ''{}'') = Inr (JObject [])"
proof -
  have bad: "parseSample ''{ players: '' = None"
    by (simp add: parseSample_def)
  have good: "parseSample ''{}'' = Some (JObject [])"
    by (simp add: parseSample_def)
  show ?thesis
    using loadPlayerData_total[of parseSample Missing]
          loadPlayerData_total[of parseSample Unreadable]
          loadPlayerData_total[of parseSample "Content ''{ players: ''"]
          loadPlayerData_total[of parseSample "Content ''{}''"]
          bad good
    by simp
qed


section \<open>Properties of the snapshot fetcher\<close>

text \<open>
  One iteration of the loop, by what the page request met: an empty page or a failure
  that is not a rate limit ends the loop; a rate limit keeps the offset; a page with
  entries moves on by 100.
\<close>

lemma fetchLoop_step:
  assumes "offset < 2000"
  shows "fetchLoop offset acc (r # script) =
     (if ends_pagination r then ([Request offset], Some acc)
      else if rate_limited r then
        (Request offset # Delay 15000 # fst (fetchLoop offset acc script),
         snd (fetchLoop offset acc script))
      else
        (Request offset # (if offset + 100 < 2000 then [Delay 75] else [])
           @ fst (fetchLoop (offset + 100) (acc @ page_of r) script),
         snd (fetchLoop (offset + 100) (acc @ page_of r) script)))"
  using assms
  by (cases r) (auto simp: ends_pagination_def rate_limited_def page_of_def split: prod.splits)

lemma fetchLoop_done: "\<not> offset < 2000 \<Longrightarrow> fetchLoop offset acc script = ([], Some acc)"
  by (cases script) auto

lemma fetchLoop_Nil_trace: "fst (fetchLoop offset acc []) = []"
  by simp

lemma requests_append: "requests (xs @ ys) = requests xs @ requests ys"
  by (induction xs rule: requests.induct) auto

lemma requests_step:
  assumes "offset < 2000"
  shows "requests (fst (fetchLoop offset acc (r # script))) =
     offset # (if ends_pagination r then []
               else if rate_limited r then requests (fst (fetchLoop offset acc script))
               else requests (fst (fetchLoop (offset + 100) (acc @ page_of r) script)))"
  using assms by (simp add: fetchLoop_step requests_append del: fetchLoop.simps)



lemma requests_length: "length (requests (fst (fetchLoop offset acc script))) \<le> length script"
proof (induction script arbitrary: offset acc)
  case Nil
  then show ?case by (simp add: fetchLoop_Nil_trace del: fetchLoop.simps)
next
  case (Cons r rest)
  show ?case
  proof (cases "offset < 2000")
    case True
    then show ?thesis
      using Cons[of offset acc] Cons[of "offset + 100" "acc @ page_of r"]
      by (simp add: requests_step del: fetchLoop.simps)
  next
    case False
    then show ?thesis by (simp add: fetchLoop_done)
  qed
qed








text \<open>
  The fetcher of the earlier program (main.js) has no case for a rate limit: whatever
  the failure of a page request, it returns the players it has.
\<close>

lemma fetchLoop_main_failure_aborts:
  "offset < 2000 \<Longrightarrow>
   fetchLoop_main offset allPlayers (Inl msg # rest) = ([Request offset], Some allPlayers)"
  by simp


section \<open>Properties of the cycle coordinator\<close>

lemma finishCycle_ok:
  "aborted (finishCycle probe currentTime isFirst prio top2000 m) = None
   \<and> filter snd (statusMessages (finishCycle probe currentTime isFirst prio top2000 m)) = []"
  by (simp add: finishCycle_def Let_def split: prod.splits)

lemma priorityPass_disk:
  "priorityPass probe currentTime missing disk0 m = (prio, m', disk1) \<Longrightarrow>
   disk1 = (if prio = [] then disk0 else fst m')"
  by (auto simp: priorityPass_def Let_def split: prod.splits if_splits)

text \<open>
  The branch of the loop over the snapshot that restores a listed entity: on a first
  check after a restart it sends nothing and touches no dedup key, and it never changes
  a record that is \<open>deleted_account\<close>.
\<close>

lemma restoreListed_guarded:
  "snd (restoreListed True currentTime uid playerData m) = m"
  by (simp add: restoreListed_def split: prod.splits)

lemma restoreListed_deleted:
  "status playerData = DeletedAccount \<Longrightarrow>
   restoreListed isFirst currentTime uid playerData m = (playerData, m)"
  by (simp add: restoreListed_def split: prod.splits)

text \<open>
  C4, as the claim states it, fails.  The store holds A, active and seen two hours ago,
  and B, whose record has no \<open>ratings\<close>; the snapshot lists B only.  The priority pass
  finds A banned, notifies, and saves.  The loop over the snapshot then throws on
  \<open>playerData.ratings.push\<close> for B, and the cycle ends in the \<open>catch\<close> with A banned in
  the file.
\<close>

theorem exception_after_priority_save:
  "aborted brokenRecord
     = Some (Exception ''Cannot read properties of undefined (reading 'push')'')
   \<and> statusOf brokenRecordStore ''A'' = Some Active
   \<and> statusOf (disk brokenRecord) ''A'' = Some Banned
   \<and> disk brokenRecord \<noteq> brokenRecordStore"
  by code_simp

text \<open>
  C4, amended.  A cycle is aborted for want of a snapshot exactly when the fetch
  returned no entity; then the store in the file is the one the cycle started from,
  nothing is notified, and the one status message is the error message.  When an
  exception leaves the coordinator, exactly one error status message is sent, and the
  store in the file is the one the cycle started from unless the priority pass had found
  a sanctioned or deleted entity: then it is the store that pass saved.  A cycle that is
  not aborted sends no error status message.
\<close>

theorem failed_cycle_store_and_report:
  "(aborted (checkForBannedPlayers disk0 currentPlayers currentTime probe)
        = Some SnapshotUnavailable
      \<longleftrightarrow> currentPlayers = [])
   \<and> (currentPlayers = [] \<longrightarrow>
         disk (checkForBannedPlayers disk0 currentPlayers currentTime probe) = disk0
         \<and> sent (checkForBannedPlayers disk0 currentPlayers currentTime probe) = []
         \<and> statusMessages (checkForBannedPlayers disk0 currentPlayers currentTime probe)
             = [(FailedToFetch, True)])
   \<and> (\<forall>e. aborted (checkForBannedPlayers disk0 currentPlayers currentTime probe)
               = Some (Exception e)
         \<longrightarrow> filter snd (statusMessages (checkForBannedPlayers disk0 currentPlayers currentTime probe))
               = [(CheckFailed e, True)]
             \<and> disk (checkForBannedPlayers disk0 currentPlayers currentTime probe)
               = (case priorityPass probe currentTime
                         (findMissingPlayers
                            (disk0\<lparr>currentCheckBans := [], currentCheckUnbans := []\<rparr>)
                            currentPlayers currentTime)
                         disk0 (disk0\<lparr>currentCheckBans := [], currentCheckUnbans := []\<rparr>, []) of
                    (priorityBannedPlayers, m, saved) \<Rightarrow>
                      if priorityBannedPlayers = [] then disk0 else fst m))
   \<and> (aborted (checkForBannedPlayers disk0 currentPlayers currentTime probe) = None
         \<longrightarrow> filter snd (statusMessages (checkForBannedPlayers disk0 currentPlayers currentTime probe))
               = [])"
proof (cases "currentPlayers = []")
  case True
  then show ?thesis
    by (simp add: checkForBannedPlayers_def Let_def)
next
  case False
  obtain prio d1 out1 disk1 where
    pp: "priorityPass probe currentTime
           (findMissingPlayers (disk0\<lparr>currentCheckBans := [], currentCheckUnbans := []\<rparr>)
              currentPlayers currentTime)
           disk0 (disk0\<lparr>currentCheckBans := [], currentCheckUnbans := []\<rparr>, [])
         = (prio, (d1, out1), disk1)"
    by (metis prod.exhaust)
  obtain top2000 d2 where
    va: "verifyAllTop2000Players (probe FullPopulation) currentTime currentPlayers d1
           = (top2000, d2)"
    by (metis prod.exhaust)
  obtain err d3 out3 where
    tp: "trackPlayers
           (isFirstCheckAfterRestart
              (disk0\<lparr>currentCheckBans := [], currentCheckUnbans := []\<rparr>) currentTime)
           currentTime top2000 prio currentPlayers (d2, out1) = (err, (d3, out3))"
    by (metis prod.exhaust)
  have d: "disk1 = (if prio = [] then disk0 else d1)"
    using priorityPass_disk[OF pp] by simp
  show ?thesis
  proof (cases err)
    case None
    with False pp va tp show ?thesis
      by (simp add: checkForBannedPlayers_def Let_def finishCycle_ok)
  next
    case (Some e)
    with False pp va tp d show ?thesis
      by (simp add: checkForBannedPlayers_def Let_def)
  qed
qed

text \<open>
  The two kinds of failed cycle, run: an empty snapshot over the store above, and the
  cycle that throws after the priority pass has saved.
\<close>

theorem failed_cycle_store_and_report_witness:
  "disk (checkForBannedPlayers brokenRecordStore [] cycleTime brokenRecordProbe) = brokenRecordStore
   \<and> statusMessages (checkForBannedPlayers brokenRecordStore [] cycleTime brokenRecordProbe)
       = [(FailedToFetch, True)]
   \<and> filter snd (statusMessages
                   (checkForBannedPlayers brokenRecordStore [listed ''B''] cycleTime brokenRecordProbe))
       = [(CheckFailed ''Cannot read properties of undefined (reading 'push')'', True)]"
proof -
  note empty = failed_cycle_store_and_report[of brokenRecordStore "[]" cycleTime brokenRecordProbe]
  note thrown =
    failed_cycle_store_and_report[of brokenRecordStore "[listed ''B'']" cycleTime brokenRecordProbe]
  have ex: "aborted (checkForBannedPlayers brokenRecordStore [listed ''B''] cycleTime brokenRecordProbe)
              = Some (Exception ''Cannot read properties of undefined (reading 'push')'')"
    by code_simp
  have a: "disk (checkForBannedPlayers brokenRecordStore [] cycleTime brokenRecordProbe)
             = brokenRecordStore
           \<and> sent (checkForBannedPlayers brokenRecordStore [] cycleTime brokenRecordProbe) = []
           \<and> statusMessages (checkForBannedPlayers brokenRecordStore [] cycleTime brokenRecordProbe)
               = [(FailedToFetch, True)]"
    using empty[THEN conjunct2, THEN conjunct1] by (rule mp) (rule refl)
  have b: "filter snd (statusMessages
                   (checkForBannedPlayers brokenRecordStore [listed ''B''] cycleTime brokenRecordProbe))
             = [(CheckFailed ''Cannot read properties of undefined (reading 'push')'', True)]"
    using thrown[THEN conjunct2, THEN conjunct2, THEN conjunct1, THEN spec,
            of "''Cannot read properties of undefined (reading 'push')''", THEN mp, OF ex]
    by (rule conjunct1)
  from a b show ?thesis
    by blast
qed

text \<open>
  C1, at inputs where the code leaves the claim.  \<open>sendBanNotification\<close> is called with
  every new sanction a pass returned, before the loop that looks the dedup key up; the
  key only guards the CSV line and the update of the record.  In the first cycle X,
  active and off the snapshot, is found suspended by the priority pass and notified;
  the re-verification pass probes it again, finds the end of the suspension changed, and
  a second ban notification goes out under the same key \<open>X_ban_suspended\<close>.  In the
  second cycle X is on two pages of the snapshot, both probes find it banned, and the one
  notification lists it twice under the key \<open>X_ban_banned\<close>.
\<close>

theorem ban_notified_twice_in_one_cycle:
  "map banKey (notifiedBans (sent resuspended)) = [''X_ban_suspended'', ''X_ban_suspended'']
   \<and> banNotifications (sent resuspended) = 2
   \<and> map banKey (notifiedBans (sent listedTwice)) = [''X_ban_banned'', ''X_ban_banned'']"
  by code_simp

text \<open>
  C2, at the input where the code leaves the claim.  The last check is thirty hours
  old, so this is the first check after a restart.  X is stored banned and is not on the
  snapshot; the re-verification pass probes it, finds no sanction, and sends the unban
  notification: that pass does not look at the restart guard.  With X on the snapshot
  the same store and probes give the silent update the claim describes.
\<close>

theorem unban_notified_on_first_cycle:
  "isFirstCheckAfterRestart
      (stored [(''X'', tracked ''X'' (cycleTime - hours 48) Banned None)]
         (Some (cycleTime - hours 30))) cycleTime
   \<and> sent restartedUnlisted = [UnbanNotification ''X'' Banned, UnbannedUnsuspendedCSV ''X'' Banned]
   \<and> statusOf (disk restartedUnlisted) ''X'' = Some Active
   \<and> sent restartedListed = []
   \<and> statusOf (disk restartedListed) ''X'' = Some Active"
  by code_simp

text \<open>
  C3, at the input where the code leaves the claim.  Three cycles in a row over one
  store.  In the first the probe of X meets HTTP 403: X becomes \<open>deleted_account\<close> and
  the deletion is notified.  In the second X is on the snapshot and the probe finds it
  banned: the sanction branches do not look for \<open>deleted_account\<close>, X becomes
  \<open>banned\<close> and a ban is notified.  In the third the probe meets 403 again: X becomes
  \<open>deleted_account\<close> a second time and its deletion is notified a second time.
\<close>

theorem deleted_account_left_and_renotified:
  "statusOf (disk forbiddenOnce) ''X'' = Some DeletedAccount
   \<and> notifiedDeletions (sent forbiddenOnce) = [''X'']
   \<and> statusOf (disk bannedAfterDeletion) ''X'' = Some Banned
   \<and> map banKey (notifiedBans (sent bannedAfterDeletion)) = [''X_ban_banned'']
   \<and> statusOf (disk deletedAgain) ''X'' = Some DeletedAccount
   \<and> notifiedDeletions (sent deletedAgain) = [''X'']"
  by code_simp

text \<open>
  C5, at the input where the code leaves the claim.  X is stored suspended, with an end
  two days ahead, and is on the snapshot; the probe finds no sanction.  The loop over
  the snapshot sets the status to \<open>active\<close> and leaves \<open>suspendedUntil\<close> in the record.
  With X off the snapshot the re-verification pass makes the same transition and does
  delete the field.
\<close>

theorem suspendedUntil_kept_on_restoration:
  "suspensionOf (disk liftedEarly) ''X'' = Some (Active, Some (cycleTime + hours 48))
   \<and> suspensionOf (disk liftedEarlyUnlisted) ''X'' = Some (Active, None)"
  by code_simp

text \<open>
  C9, at the input where the code leaves the claim.  The last check was four hours ago,
  so the guard holds.  Z is stored banned and is not on the snapshot; the
  re-verification pass finds no sanction and sends the unban notification.
\<close>

theorem unban_notified_after_long_gap:
  "isFirstCheckAfterRestart
      (stored [(''Z'', tracked ''Z'' (cycleTime - hours 48) Banned None)] (Some (cycleTime - hours 4))) cycleTime
   \<and> sent longGapUnlisted = [UnbanNotification ''Z'' Banned, UnbannedUnsuspendedCSV ''Z'' Banned]
   \<and> statusMessages longGapUnlisted = [(BotRestarted, False), (CheckCompleted 0, False)]"
  by code_simp

end
